theory Spec2Isabelle
  imports
    Complex_Main
    "HOL-Library.Sublist"
    "HOL-Library.AList"
    "HOL-Library.Char_ord"
    "HOL-Library.List_Lexorder"
    "HOL-Library.Product_Lexorder"
    "HOL-Library.Multiset"
begin

section \<open>The WMS expiration analyser: \<open>data_processor.py\<close>\<close>

text \<open>
  The development embeds the class \<open>WMSDataProcessor\<close> of \<open>data_processor.py\<close>:
  \<open>parse_date\<close>, \<open>_find_column\<close>, \<open>process_data\<close>, \<open>_extrair_filtros\<close> and
  \<open>_gerar_recomendacoes\<close>. A Python \<open>str\<close> is a \<open>string\<close>; a character stands for the code
  point of the same number, so only texts of code points below 256 are covered. A cell of
  the data frame is read with \<open>dtype=str\<close>: it is a text or the missing value NaN.
\<close>

subsection \<open>Column resolver: \<open>_find_column\<close>\<close>

text \<open>
  \<^verbatim>\<open>
  def _find_column(self, columns, possible_names):
      for col in columns:
          if col in possible_names:
              return col
      for col in columns:
          for name in possible_names:
              if name in col:
                  return col
      return None
  \<close>
  \<open>col in possible_names\<close> is membership in a list; \<open>name in col\<close> is Python's substring
  test on texts, the contiguous \<^const>\<open>sublist\<close>.
\<close>

fun exact_pass :: "string list \<Rightarrow> string list \<Rightarrow> string option" where
  "exact_pass [] possible_names = None"
| "exact_pass (col # columns) possible_names =
     (if col \<in> set possible_names then Some col else exact_pass columns possible_names)"

fun name_in_col :: "string list \<Rightarrow> string \<Rightarrow> bool" where
  "name_in_col [] col = False"
| "name_in_col (name # possible_names) col =
     (if sublist name col then True else name_in_col possible_names col)"

fun substring_pass :: "string list \<Rightarrow> string list \<Rightarrow> string option" where
  "substring_pass [] possible_names = None"
| "substring_pass (col # columns) possible_names =
     (if name_in_col possible_names col then Some col
      else substring_pass columns possible_names)"

definition find_column :: "string list \<Rightarrow> string list \<Rightarrow> string option" where
  "find_column columns possible_names =
     (case exact_pass columns possible_names of
        Some col \<Rightarrow> Some col
      | None \<Rightarrow> substring_pass columns possible_names)"

subsection \<open>Python values used by the processor\<close>

text \<open>
  Exceptions are values. \<open>ValueError\<close> carries its message; the message of an error that
  the code catches at once is never observed.
\<close>

datatype error = ValueError string | OverflowError | TypeError | KeyError

text \<open>
  A cell is a text or NaN (\<open>None\<close>). \<open>pd.isna\<close> holds of NaN only, \<open>str(nan)\<close> is
  \<open>'nan'\<close>, and NaN is true in a condition while the empty text is false.
\<close>

type_synonym cell = "string option"

definition isna :: "cell \<Rightarrow> bool" where
  "isna v = (v = None)"

definition py_str :: "cell \<Rightarrow> string" where
  "py_str v = (case v of None \<Rightarrow> ''nan'' | Some s \<Rightarrow> s)"

definition truthy :: "cell \<Rightarrow> bool" where
  "truthy v = (case v of None \<Rightarrow> True | Some s \<Rightarrow> s \<noteq> [])"

text \<open>
  \<open>str.strip()\<close> removes the characters for which \<open>str.isspace\<close> holds; below 256 these
  are 9 to 13, 28 to 32, 133 and 160. \<open>int\<close> and \<open>float\<close> skip a smaller set around a
  number: 9 to 13, 32, 133 and 160.
\<close>

definition is_space :: "char \<Rightarrow> bool" where
  "is_space c = (of_char c \<in> set [9, 10, 11, 12, 13, 28, 29, 30, 31, 32, 133, 160 :: nat])"

definition strip :: "string \<Rightarrow> string" where
  "strip s = rev (dropWhile is_space (rev (dropWhile is_space s)))"

definition is_num_space :: "char \<Rightarrow> bool" where
  "is_num_space c = (of_char c \<in> set [9, 10, 11, 12, 13, 32, 133, 160 :: nat])"

definition strip_num :: "string \<Rightarrow> string" where
  "strip_num s = rev (dropWhile is_num_space (rev (dropWhile is_num_space s)))"

definition is_digit :: "char \<Rightarrow> bool" where
  "is_digit c = (c \<in> set ''0123456789'')"

definition digit_val :: "char \<Rightarrow> int" where
  "digit_val c = of_char c - 48"

definition digits_value :: "string \<Rightarrow> int" where
  "digits_value ds = foldl (\<lambda>a c. 10 * a + digit_val c) 0 ds"

text \<open>\<open>s.split(sep)\<close> for a separator of one character; the result is never empty.\<close>

fun split :: "char \<Rightarrow> string \<Rightarrow> string list" where
  "split sep [] = [[]]"
| "split sep (c # cs) =
     (if c = sep then [] # split sep cs
      else (case split sep cs of p # ps \<Rightarrow> (c # p) # ps | [] \<Rightarrow> [[c]]))"

text \<open>\<open>s.replace(',', '.')\<close> replaces every comma.\<close>

definition replace_comma :: "string \<Rightarrow> string" where
  "replace_comma s = map (\<lambda>c. if c = CHR '','' then CHR ''.'' else c) s"

definition lower :: "string \<Rightarrow> string" where
  "lower s = map (\<lambda>c. if CHR ''A'' \<le> c \<and> c \<le> CHR ''Z'' then char_of (of_char c + (32 :: nat)) else c) s"

text \<open>
  The digits of a Python numeric literal: \<open>digit (["_"] digit)*\<close>.
\<close>

fun digitpart :: "string \<Rightarrow> bool" where
  "digitpart [] = False"
| "digitpart [c] = is_digit c"
| "digitpart (c # d # cs) =
     (is_digit c \<and> (if d = CHR ''_'' then digitpart cs else digitpart (d # cs)))"

definition take_sign :: "string \<Rightarrow> bool \<times> string" where
  "take_sign s =
     (case s of
        [] \<Rightarrow> (False, [])
      | c # r \<Rightarrow> if c = CHR ''-'' then (True, r) else if c = CHR ''+'' then (False, r) else (False, s))"

text \<open>
  \<open>int(s)\<close> on a text: optional sign, digits with single underscores, surrounded by
  whitespace; \<open>None\<close> is \<open>ValueError\<close>. CPython refuses more than 4300 digits with a
  \<open>ValueError\<close> too.
\<close>

definition py_int :: "string \<Rightarrow> int option" where
  "py_int s =
     (case take_sign (strip_num s) of
        (neg, u) \<Rightarrow>
          if digitpart u \<and> length (filter is_digit u) \<le> 4300
          then Some ((if neg then - 1 else 1) * digits_value (filter is_digit u))
          else None)"

subsection \<open>Python floats\<close>

text \<open>
  A \<open>float\<close> is a finite number, an infinity or NaN. Finite values are real numbers:
  the rounding of IEEE arithmetic to 53 bits and the overflow of large finite values to
  infinity are not modelled, so sums are exact.
\<close>

datatype pyfloat = Finite real | PosInf | NegInf | NaN

fun fadd :: "pyfloat \<Rightarrow> pyfloat \<Rightarrow> pyfloat" where
  "fadd NaN y = NaN"
| "fadd x NaN = NaN"
| "fadd (Finite a) (Finite b) = Finite (a + b)"
| "fadd (Finite a) PosInf = PosInf"
| "fadd (Finite a) NegInf = NegInf"
| "fadd PosInf (Finite b) = PosInf"
| "fadd NegInf (Finite b) = NegInf"
| "fadd PosInf PosInf = PosInf"
| "fadd NegInf NegInf = NegInf"
| "fadd PosInf NegInf = NaN"
| "fadd NegInf PosInf = NaN"

instantiation pyfloat :: comm_monoid_add
begin

definition zero_pyfloat :: pyfloat where
  "zero_pyfloat = Finite 0"

definition plus_pyfloat :: "pyfloat \<Rightarrow> pyfloat \<Rightarrow> pyfloat" where
  "plus_pyfloat x y = fadd x y"

instance
proof
  fix a b c :: pyfloat
  show "a + b + c = a + (b + c)"
    unfolding plus_pyfloat_def by (cases a; cases b; cases c) simp_all
  show "a + b = b + a"
    unfolding plus_pyfloat_def by (cases a; cases b) simp_all
  show "0 + a = a"
    unfolding plus_pyfloat_def zero_pyfloat_def by (cases a) simp_all
qed

end

text \<open>\<open>x < y\<close> and \<open>abs(x)\<close> on floats; every comparison with NaN is false.\<close>

fun fless :: "pyfloat \<Rightarrow> pyfloat \<Rightarrow> bool" where
  "fless NaN y = False"
| "fless x NaN = False"
| "fless (Finite a) (Finite b) = (a < b)"
| "fless (Finite a) PosInf = True"
| "fless (Finite a) NegInf = False"
| "fless PosInf y = False"
| "fless NegInf (Finite b) = True"
| "fless NegInf PosInf = True"
| "fless NegInf NegInf = False"

fun fabs :: "pyfloat \<Rightarrow> pyfloat" where
  "fabs (Finite a) = Finite \<bar>a\<bar>"
| "fabs PosInf = PosInf"
| "fabs NegInf = PosInf"
| "fabs NaN = NaN"

text \<open>
  \<open>float(s)\<close> on a text, after the grammar of the language reference:
  \<^verbatim>\<open>
  floatvalue  ::= [sign] (floatnumber | "inf" | "infinity" | "nan")
  floatnumber ::= number [exponent]
  number      ::= [digitpart] "." digitpart | digitpart ["."]
  exponent    ::= ("e" | "E") [sign] digitpart
  \<close>
  with surrounding whitespace skipped and the words in either case. \<open>None\<close> is
  \<open>ValueError\<close>. The value is the exact decimal value.
\<close>

definition split_at :: "(char \<Rightarrow> bool) \<Rightarrow> string \<Rightarrow> string \<times> string option" where
  "split_at P s =
     (case dropWhile (\<lambda>c. \<not> P c) s of
        [] \<Rightarrow> (s, None)
      | _ # r \<Rightarrow> (takeWhile (\<lambda>c. \<not> P c) s, Some r))"

definition mantissa :: "string \<Rightarrow> real option" where
  "mantissa m =
     (case split_at (\<lambda>c. c = CHR ''.'') m of
        (ip, None) \<Rightarrow> if digitpart ip then Some (real_of_int (digits_value (filter is_digit ip))) else None
      | (ip, Some fp) \<Rightarrow>
          if (ip = [] \<or> digitpart ip) \<and> (fp = [] \<or> digitpart fp) \<and> \<not> (ip = [] \<and> fp = [])
          then Some (real_of_int (digits_value (filter is_digit ip))
                     + real_of_int (digits_value (filter is_digit fp)) / 10 ^ length (filter is_digit fp))
          else None)"

definition exponent :: "string \<Rightarrow> int option" where
  "exponent e =
     (case take_sign e of
        (neg, u) \<Rightarrow>
          if digitpart u
          then Some ((if neg then - 1 else 1) * digits_value (filter is_digit u))
          else None)"

definition floatnumber :: "string \<Rightarrow> real option" where
  "floatnumber u =
     (case split_at (\<lambda>c. c = CHR ''e'' \<or> c = CHR ''E'') u of
        (m, None) \<Rightarrow> mantissa m
      | (m, Some e) \<Rightarrow>
          (case (mantissa m, exponent e) of
             (Some r, Some k) \<Rightarrow> Some (if 0 \<le> k then r * 10 ^ nat k else r / 10 ^ nat (- k))
           | _ \<Rightarrow> None))"

definition py_float :: "string \<Rightarrow> pyfloat option" where
  "py_float s =
     (case take_sign (strip_num s) of
        (neg, u) \<Rightarrow>
          if lower u = ''inf'' \<or> lower u = ''infinity'' then Some (if neg then NegInf else PosInf)
          else if lower u = ''nan'' then Some NaN
          else (case floatnumber u of
                  None \<Rightarrow> None
                | Some r \<Rightarrow> Some (Finite (if neg then - r else r))))"

subsection \<open>Regular expressions of \<open>parse_date\<close>\<close>

text \<open>
  The three patterns use only \<open>\d{m,n}\<close> and literal characters. \<open>re.match\<close> anchors at
  the start; a pattern that ends in \<open>$\<close> must consume the whole text (the text is stripped
  before, so it has no final newline), another one matches a prefix. Below 256 \<open>\d\<close> is an
  ASCII digit.
\<close>

datatype re_item = Digits nat nat | Lit char

fun re_match :: "re_item list \<Rightarrow> bool \<Rightarrow> string \<Rightarrow> bool" where
  "re_match [] to_end s = (if to_end then s = [] else True)"
| "re_match (Lit c # ps) to_end s =
     (case s of [] \<Rightarrow> False | x # xs \<Rightarrow> x = c \<and> re_match ps to_end xs)"
| "re_match (Digits lo hi # ps) to_end s =
     list_ex (\<lambda>k. k \<le> length s \<and> list_all is_digit (take k s) \<and> re_match ps to_end (drop k s))
       [lo..<Suc hi]"

text \<open>\<^verbatim>\<open>^\d{1,2}/\d{1,2}/\d{4}$\<close>, \<^verbatim>\<open>^\d{1,2}-\d{1,2}-\d{4}$\<close> and \<^verbatim>\<open>^\d{4}-\d{1,2}-\d{1,2}\<close>.\<close>

definition re_dmy_slash :: "string \<Rightarrow> bool" where
  "re_dmy_slash s =
     re_match [Digits 1 2, Lit CHR ''/'', Digits 1 2, Lit CHR ''/'', Digits 4 4] True s"

definition re_dmy_dash :: "string \<Rightarrow> bool" where
  "re_dmy_dash s =
     re_match [Digits 1 2, Lit CHR ''-'', Digits 1 2, Lit CHR ''-'', Digits 4 4] True s"

definition re_ymd_dash :: "string \<Rightarrow> bool" where
  "re_ymd_dash s =
     re_match [Digits 4 4, Lit CHR ''-'', Digits 1 2, Lit CHR ''-'', Digits 1 2] False s"

subsection \<open>\<open>datetime\<close> and \<open>timedelta\<close>\<close>

text \<open>
  A \<open>datetime\<close> is a date of the proleptic Gregorian calendar, years 1 to 9999, and a time
  of day, kept as the microseconds since midnight. A \<open>timedelta\<close> is a signed number of
  microseconds. The calendar arithmetic follows CPython's \<open>datetime\<close> module.
\<close>

record datetime =
  year :: int
  month :: int
  day :: int
  micros :: int

type_synonym timedelta = int

definition DAY_US :: int where
  "DAY_US = 86400000000"

definition is_leap :: "int \<Rightarrow> bool" where
  "is_leap y = (y mod 4 = 0 \<and> (y mod 100 \<noteq> 0 \<or> y mod 400 = 0))"

definition DAYS_IN_MONTH :: "int list" where
  "DAYS_IN_MONTH = [- 1, 31, 28, 31, 30, 31, 30, 31, 31, 30, 31, 30, 31]"

definition DAYS_BEFORE_MONTH :: "int list" where
  "DAYS_BEFORE_MONTH = [- 1, 0, 31, 59, 90, 120, 151, 181, 212, 243, 273, 304, 334]"

definition days_in_month :: "int \<Rightarrow> int \<Rightarrow> int" where
  "days_in_month y m = (if m = 2 \<and> is_leap y then 29 else DAYS_IN_MONTH ! nat m)"

definition days_before_year :: "int \<Rightarrow> int" where
  "days_before_year y = (y - 1) * 365 + (y - 1) div 4 - (y - 1) div 100 + (y - 1) div 400"

definition days_before_month :: "int \<Rightarrow> int \<Rightarrow> int" where
  "days_before_month y m = DAYS_BEFORE_MONTH ! nat m + (if m > 2 \<and> is_leap y then 1 else 0)"

definition ymd2ord :: "int \<Rightarrow> int \<Rightarrow> int \<Rightarrow> int" where
  "ymd2ord y m d = days_before_year y + days_before_month y m + d"

definition ord2ymd :: "int \<Rightarrow> int \<times> int \<times> int" where
  "ord2ymd ordinal =
     (let n = ordinal - 1;
          n400 = n div 146097; n = n mod 146097;
          n100 = n div 36524; n = n mod 36524;
          n4 = n div 1461; n = n mod 1461;
          n1 = n div 365; n = n mod 365;
          y = n400 * 400 + 1 + n100 * 100 + n4 * 4 + n1
      in if n1 = 4 \<or> n100 = 4 then (y - 1, 12, 31)
         else
           let leapyear = (n1 = 3 \<and> (n4 \<noteq> 24 \<or> n100 = 3));
               m = (n + 50) div 32;
               preceding = DAYS_BEFORE_MONTH ! nat m + (if m > 2 \<and> leapyear then 1 else 0)
           in if preceding > n
              then (y, m - 1,
                    n - (preceding - (DAYS_IN_MONTH ! nat (m - 1)
                                      + (if m - 1 = 2 \<and> leapyear then 1 else 0))) + 1)
              else (y, m, n - preceding + 1))"

text \<open>
  \<open>datetime(year, month, day)\<close>: an argument that does not fit a C \<open>int\<close> raises
  \<open>OverflowError\<close>, a date outside the calendar raises \<open>ValueError\<close> (the message of the
  year is written without the number).
\<close>

definition fits_c_int :: "int \<Rightarrow> bool" where
  "fits_c_int i = (- 2147483648 \<le> i \<and> i \<le> 2147483647)"

definition datetime_new :: "int \<Rightarrow> int \<Rightarrow> int \<Rightarrow> error + datetime" where
  "datetime_new y m d =
     (if \<not> (fits_c_int y \<and> fits_c_int m \<and> fits_c_int d) then Inl OverflowError
      else if y < 1 \<or> y > 9999 then Inl (ValueError ''year is out of range'')
      else if m < 1 \<or> m > 12 then Inl (ValueError ''month must be in 1..12'')
      else if d < 1 \<or> d > days_in_month y m then Inl (ValueError ''day is out of range for month'')
      else Inr \<lparr>year = y, month = m, day = d, micros = 0\<rparr>)"

definition toordinal :: "datetime \<Rightarrow> int" where
  "toordinal dt = ymd2ord (year dt) (month dt) (day dt)"

text \<open>
  \<open>timedelta(days=x)\<close> for a finite float: the nearest number of microseconds, halves to
  even. \<open>td.days\<close> rounds down.
\<close>

definition round_half_even :: "real \<Rightarrow> int" where
  "round_half_even x =
     (let f = \<lfloor>x\<rfloor>; r = x - of_int f
      in if r < 1 / 2 then f else if 1 / 2 < r then f + 1 else if even f then f else f + 1)"

definition timedelta_days :: "real \<Rightarrow> timedelta" where
  "timedelta_days x = round_half_even (x * 86400000000)"

definition td_days :: "timedelta \<Rightarrow> int" where
  "td_days td = td div DAY_US"

text \<open>\<open>a + td\<close> raises \<open>OverflowError\<close> outside the years 1 to 9999; \<open>a - b\<close> is a \<open>timedelta\<close>.\<close>

definition datetime_add :: "datetime \<Rightarrow> timedelta \<Rightarrow> error + datetime" where
  "datetime_add dt td =
     (let t = toordinal dt * DAY_US + micros dt + td; days = t div DAY_US
      in if 0 < days \<and> days \<le> 3652059
         then (case ord2ymd days of
                 (y, m, d) \<Rightarrow> Inr \<lparr>year = y, month = m, day = d, micros = t mod DAY_US\<rparr>)
         else Inl OverflowError)"

definition datetime_sub :: "datetime \<Rightarrow> datetime \<Rightarrow> timedelta" where
  "datetime_sub a b = (toordinal a - toordinal b) * DAY_US + (micros a - micros b)"

text \<open>\<open>dt.strftime('%m/%Y')\<close>: the month on two digits, the year in decimal.\<close>

definition digit_char :: "nat \<Rightarrow> char" where
  "digit_char n = char_of (48 + n mod 10)"

fun dec :: "nat \<Rightarrow> string" where
  "dec n = (if n < 10 then [digit_char n] else dec (n div 10) @ [digit_char n])"

definition strftime_mY :: "datetime \<Rightarrow> string" where
  "strftime_mY dt =
     [digit_char (nat (month dt) div 10), digit_char (nat (month dt))] @ ''/'' @ dec (nat (year dt))"

subsection \<open>Date parser: \<open>parse_date\<close>\<close>

text \<open>
  \<^verbatim>\<open>
  def parse_date(self, date_string):
      if pd.isna(date_string) or date_string in ['', 'NULL', 'null', 'NaN', 'Invalid Date']:
          return None
      str_date = str(date_string).strip()
      if re.match(r'^\d{1,2}/\d{1,2}/\d{4}$', str_date):
          try:
              day, month, year = map(int, str_date.split('/'))
              date = datetime(year, month, day)
              return date
          except ValueError as e: ...
      elif re.match(r'^\d{1,2}-\d{1,2}-\d{4}$', str_date):
          try:
              day, month, year = map(int, str_date.split('-'))
              date = datetime(year, month, day)
              return date
          except ValueError as e: ...
      elif re.match(r'^\d{4}-\d{1,2}-\d{1,2}', str_date):
          try:
              date_part = str_date.split(' ')[0]
              year, month, day = map(int, date_part.split('-'))
              date = datetime(year, month, day)
              return date
          except ValueError as e: ...
      try:
          excel_num = float(str_date)
          if 0 < excel_num < 50000:
              date = datetime(1899, 12, 30) + timedelta(days=excel_num)
              return date
      except ValueError:
          pass
      return None
  \<close>
  The result \<open>Inr None\<close> is the return of \<open>None\<close>; \<open>Inl e\<close> is an exception that leaves
  \<open>parse_date\<close>. Each \<open>try\<close> catches \<open>ValueError\<close> only, and after a caught error the
  control reaches the attempt with \<open>float\<close>.
\<close>

text \<open>
  \<open>a, b, c = map(int, parts)\<close>: a wrong number of parts and a part that is no integer
  both raise \<open>ValueError\<close>.
\<close>

fun unpack3 :: "string list \<Rightarrow> error + (int \<times> int \<times> int)" where
  "unpack3 [a, b, c] =
     (case (py_int a, py_int b, py_int c) of
        (Some x, Some y, Some z) \<Rightarrow> Inr (x, y, z)
      | _ \<Rightarrow> Inl (ValueError ''invalid literal for int()''))"
| "unpack3 parts = Inl (ValueError ''wrong number of values to unpack'')"

definition try_dmy :: "string list \<Rightarrow> error + datetime" where
  "try_dmy parts =
     (case unpack3 parts of
        Inl e \<Rightarrow> Inl e
      | Inr (d, m, y) \<Rightarrow> datetime_new y m d)"

definition try_ymd :: "string list \<Rightarrow> error + datetime" where
  "try_ymd parts =
     (case unpack3 parts of
        Inl e \<Rightarrow> Inl e
      | Inr (y, m, d) \<Rightarrow> datetime_new y m d)"

definition epoch :: datetime where
  "epoch = \<lparr>year = 1899, month = 12, day = 30, micros = 0\<rparr>"

definition try_excel :: "string \<Rightarrow> error + datetime option" where
  "try_excel str_date =
     (case py_float str_date of
        None \<Rightarrow> Inr None
      | Some excel_num \<Rightarrow>
          if fless (Finite 0) excel_num \<and> fless excel_num (Finite 50000)
          then (case excel_num of
                  Finite x \<Rightarrow>
                    (case datetime_add epoch (timedelta_days x) of
                       Inl e \<Rightarrow> Inl e
                     | Inr date \<Rightarrow> Inr (Some date))
                | _ \<Rightarrow> Inr None)
          else Inr None)"

definition after_try :: "string \<Rightarrow> error + datetime \<Rightarrow> error + datetime option" where
  "after_try str_date attempt =
     (case attempt of
        Inr date \<Rightarrow> Inr (Some date)
      | Inl (ValueError msg) \<Rightarrow> try_excel str_date
      | Inl e \<Rightarrow> Inl e)"

definition parse_date :: "cell \<Rightarrow> error + datetime option" where
  "parse_date date_string =
     (if isna date_string
         \<or> py_str date_string \<in> set ['''', ''NULL'', ''null'', ''NaN'', ''Invalid Date'']
      then Inr None
      else
        let str_date = strip (py_str date_string)
        in if re_dmy_slash str_date
           then after_try str_date (try_dmy (split CHR ''/'' str_date))
           else if re_dmy_dash str_date
           then after_try str_date (try_dmy (split CHR ''-'' str_date))
           else if re_ymd_dash str_date
           then after_try str_date (try_ymd (split CHR ''-'' (hd (split CHR '' '' str_date))))
           else try_excel str_date)"

subsection \<open>The data frame and the records of \<open>process_data\<close>\<close>

text \<open>
  A data frame has its column labels, upper-cased and stripped by \<open>load_data\<close>, and its
  rows; \<open>row[col]\<close> is the cell of the row under the label \<open>col\<close>. Labels are taken to be
  unique, so a row is a function from labels to cells.
\<close>

type_synonym row = "string \<Rightarrow> cell"

record dataframe =
  columns :: "string list"
  rows :: "row list"

text \<open>The dictionary \<open>col_mapping\<close>, one entry for each of its twenty keys.\<close>

record col_mapping =
  col_qt :: "string option"
  col_cod_prod :: "string option"
  col_descricao :: "string option"
  col_dt_val :: "string option"
  col_peso :: "string option"
  col_cod_fornec :: "string option"
  col_fornecedor :: "string option"
  col_cod_endereco :: "string option"
  col_deposito :: "string option"
  col_rua :: "string option"
  col_predio :: "string option"
  col_nivel :: "string option"
  col_apto :: "string option"
  col_status :: "string option"
  col_fator :: "string option"
  col_unidade :: "string option"
  col_capacidade :: "string option"
  col_qttotpal :: "string option"
  col_pesototal :: "string option"
  col_est :: "string option"

definition find_columns :: "string list \<Rightarrow> col_mapping" where
  "find_columns cols =
     \<lparr>col_qt = find_column cols [''QT'', ''QUANTIDADE'', ''QUANTITY'', ''QTD''],
      col_cod_prod = find_column cols [''CODPROD'', ''COD_PROD'', ''PRODUTO'', ''CODIGO'', ''COD''],
      col_descricao = find_column cols [''DESCRICAO'', ''PRODUTO'', ''NOME'', ''DESCR''],
      col_dt_val = find_column cols [''DTVAL'', ''VALIDADE'', ''VENCIMENTO'', ''DATA''],
      col_peso = find_column cols [''PESOLIQUN'', ''PESO'', ''PESO_LIQUIDO''],
      col_cod_fornec = find_column cols [''CODFORNEC'', ''FORNECEDOR_COD'', ''COD_FORNECEDOR''],
      col_fornecedor = find_column cols [''FORNECEDOR'', ''FORNEC'', ''FORNECEDOR_NOME''],
      col_cod_endereco = find_column cols [''CODENDERECO'', ''ENDERECO'', ''LOCAL''],
      col_deposito = find_column cols [''DEPOSITO'', ''DEPOSITO_COD''],
      col_rua = find_column cols [''RUA'', ''RUA_COD''],
      col_predio = find_column cols [''PREDIO'', ''PREDIO_COD''],
      col_nivel = find_column cols [''NIVEL'', ''NIVEL_COD''],
      col_apto = find_column cols [''APTO'', ''APARTAMENTO''],
      col_status = find_column cols [''STATUS'', ''STATUS_PROD''],
      col_fator = find_column cols [''FATOR'', ''FATOR_EMB''],
      col_unidade = find_column cols [''UNIDADE'', ''UNID_MED''],
      col_capacidade = find_column cols [''CAPACIDADE'', ''CAPAC''],
      col_qttotpal = find_column cols [''QTTOTPAL'', ''TOTAL_PALETE''],
      col_pesototal = find_column cols [''PESOTOTAL'', ''PESO_TOTAL''],
      col_est = find_column cols [''EST'', ''ESTOQUE'', ''LOTE'']\<rparr>"

text \<open>
  A resolved column in a condition: \<open>None\<close> and the empty label are false.
  \<open>row[col] if col else default\<close> reads the cell or takes the default.
\<close>

definition col_truthy :: "string option \<Rightarrow> bool" where
  "col_truthy col = (case col of None \<Rightarrow> False | Some c \<Rightarrow> c \<noteq> [])"

definition row_get :: "row \<Rightarrow> string option \<Rightarrow> cell \<Rightarrow> cell" where
  "row_get row col dflt =
     (case col of None \<Rightarrow> dflt | Some c \<Rightarrow> if c \<noteq> [] then row c else dflt)"

text \<open>The four tiers: the texts \<open>vencido\<close>, \<open>alta\<close>, \<open>media\<close> (with an accent) and \<open>baixa\<close>.\<close>

datatype criticidade = Vencido | Alta | Media | Baixa

text \<open>
  \<open>menor_dias_restantes\<close> starts as \<open>float('inf')\<close> and becomes an \<open>int\<close> with the first
  item; \<open>lt\<close> and \<open>le\<close> compare it with an integer.
\<close>

datatype menor = Infinito | Dias int

fun menor_lt :: "menor \<Rightarrow> int \<Rightarrow> bool" where
  "menor_lt Infinito k = False"
| "menor_lt (Dias d) k = (d < k)"

fun menor_le :: "menor \<Rightarrow> int \<Rightarrow> bool" where
  "menor_le Infinito k = False"
| "menor_le (Dias d) k = (d \<le> k)"

fun lt_menor :: "int \<Rightarrow> menor \<Rightarrow> bool" where
  "lt_menor k Infinito = True"
| "lt_menor k (Dias d) = (k < d)"

record item_detalhado =
  cod_endereco :: cell
  deposito :: cell
  rua :: cell
  predio :: cell
  nivel :: cell
  apto :: cell
  status :: cell
  quantidade :: pyfloat
  data_validade :: datetime
  dias_restantes :: int
  fator :: cell
  unidade :: cell
  capacidade :: cell
  qttotpal :: cell
  pesototal :: cell
  est :: cell

record vencimento =
  mes_ano :: string
  mes_quantidade :: pyfloat
  mes_dias_restantes :: int

text \<open>
  The dictionary of one product. Three of its entries change at the end of
  \<open>process_data\<close>: \<open>vencimentos_por_mes\<close> from a dictionary to the sorted list of its
  values, \<open>menor_dias_restantes\<close> from a float or integer to an integer, and
  \<open>criticidade\<close>, which is added. Their types are the parameters of the record.
\<close>

record ('v, 'm, 'c) produto_rec =
  cod_prod :: string
  nome :: cell
  fornecedor :: cell
  cod_fornec :: cell
  peso_liqun :: cell
  vencimentos_por_mes :: 'v
  quantidade_total :: pyfloat
  menor_dias_restantes :: 'm
  quantidade_original :: pyfloat
  itens_detalhados :: "item_detalhado list"
  criticidade :: 'c

type_synonym produto_acc = "((string \<times> vencimento) list, menor, unit) produto_rec"

type_synonym produto = "(vencimento list, int, criticidade) produto_rec"

record estatisticas_rec =
  total_linhas :: nat
  linhas_processadas :: nat
  linhas_ignoradas :: nat
  datas_invalidas :: nat

record resumo_rec =
  total_produtos :: nat
  total_itens :: pyfloat
  produtos_vencendo_30_dias :: nat
  produtos_vencendo_60_dias :: nat
  produtos_vencidos :: nat

text \<open>
  The supplier names are added to their set as they are, without \<open>str\<close>, so the list of
  them holds cells; the three other lists hold texts.
\<close>

record filtros_rec =
  fornecedores :: "cell list"
  cods_fornecedor :: "string list"
  pesos_liquidos :: "string list"
  cods_produto :: "string list"

text \<open>
  The five messages of \<open>_gerar_recomendacoes\<close>, each with the number it prints
  (accents and the leading pictograph left out):
  \<^item> \<open>n produtos ja vencidos - necessario descarte imediato\<close>;
  \<^item> \<open>n produtos vencem em ate 30 dias - priorizar venda/uso\<close>;
  \<^item> \<open>n produtos vencem em 31-60 dias - atencao necessaria\<close>;
  \<^item> \<open>n produtos com grandes quantidades proximas do vencimento - considerar promocoes\<close>;
  \<^item> \<open>Situacao sob controle - estoque com boa validade\<close>.
\<close>

datatype recomendacao =
  JaVencidos nat
| VencemEm30Dias nat
| VencemEm31a60Dias nat
| GrandesQuantidades nat
| SobControle

record analysis =
  resumo :: resumo_rec
  produtos_criticos :: "produto list"
  filtros :: filtros_rec
  recomendacoes :: "recomendacao list"
  estatisticas :: estatisticas_rec
  colunas_mapeadas :: col_mapping

text \<open>The object: \<open>self.hoje\<close> is the day of the run at midnight.\<close>

record processor =
  hoje :: datetime

subsection \<open>\<open>_extrair_filtros\<close> and \<open>_gerar_recomendacoes\<close>\<close>

text \<open>
  \<^verbatim>\<open>
  for produto in produtos:
      if produto['fornecedor']:
          fornecedores.add(produto['fornecedor'])
      if produto['cod_fornec']:
          cods_fornecedor.add(str(produto['cod_fornec']))
      if produto['peso_liqun']:
          pesos_liquidos.add(str(produto['peso_liqun']))
      if produto['cod_prod']:
          cods_produto.add(str(produto['cod_prod']))
  return {'fornecedores': sorted(list(fornecedores)), ...}
  \<close>
  \<open>sorted(list(s))\<close> of a set of texts is the sorted list of its distinct elements.
  \<open>sorted\<close> of a list that holds a text and NaN raises \<open>TypeError\<close>, since no order is
  defined between \<open>str\<close> and \<open>float\<close>; NaN alone is left as it is. The missing cells of a
  frame are one object, so a set holds NaN at most once.
\<close>

definition sorted_cells :: "cell list \<Rightarrow> error + cell list" where
  "sorted_cells vs =
     (let ds = remdups vs
      in if None \<in> set ds \<and> (\<exists>v \<in> set ds. v \<noteq> None) then Inl TypeError
         else if None \<in> set ds then Inr ds
         else Inr (map Some (sort (map the ds))))"

definition sorted_texts :: "string list \<Rightarrow> string list" where
  "sorted_texts vs = sort (remdups vs)"

definition extrair_filtros :: "('v, 'm, 'c) produto_rec list \<Rightarrow> error + filtros_rec" where
  "extrair_filtros produtos =
     (case sorted_cells (filter truthy (map fornecedor produtos)) of
        Inl e \<Rightarrow> Inl e
      | Inr fs \<Rightarrow>
          Inr \<lparr>fornecedores = fs,
               cods_fornecedor = sorted_texts (map py_str (filter truthy (map cod_fornec produtos))),
               pesos_liquidos = sorted_texts (map py_str (filter truthy (map peso_liqun produtos))),
               cods_produto = sorted_texts (filter (\<lambda>c. c \<noteq> []) (map cod_prod produtos))\<rparr>)"

text \<open>
  \<^verbatim>\<open>
  vencidos = [p for p in produtos if p['menor_dias_restantes'] < 0]
  criticos = [p for p in produtos if p['criticidade'] == 'alta']
  medios = [p for p in produtos if p['criticidade'] == 'media']
  grandes_quantidades = [p for p in produtos
                         if p['quantidade_total'] > 100 and p['criticidade'] != 'baixa']
  if vencidos: recomendacoes.append(...)
  if criticos: recomendacoes.append(...)
  if medios: recomendacoes.append(...)
  if grandes_quantidades: recomendacoes.append(...)
  if not recomendacoes: recomendacoes.append(...)
  \<close>
\<close>

definition gerar_recomendacoes :: "produto list \<Rightarrow> recomendacao list" where
  "gerar_recomendacoes produtos =
     (let vencidos = filter (\<lambda>p. menor_dias_restantes p < 0) produtos;
          criticos = filter (\<lambda>p. criticidade p = Alta) produtos;
          medios = filter (\<lambda>p. criticidade p = Media) produtos;
          grandes_quantidades =
            filter (\<lambda>p. fless (Finite 100) (quantidade_total p) \<and> criticidade p \<noteq> Baixa) produtos;
          recomendacoes =
            (if vencidos \<noteq> [] then [JaVencidos (length vencidos)] else [])
            @ (if criticos \<noteq> [] then [VencemEm30Dias (length criticos)] else [])
            @ (if medios \<noteq> [] then [VencemEm31a60Dias (length medios)] else [])
            @ (if grandes_quantidades \<noteq> [] then [GrandesQuantidades (length grandes_quantidades)]
               else [])
      in if recomendacoes = [] then [SobControle] else recomendacoes)"

subsection \<open>\<open>process_data\<close>: the loop over the rows\<close>

text \<open>
  The state of the loop: the dictionary \<open>produtos\<close>, in the order in which its keys were
  inserted, and the counters \<open>estatisticas\<close>.
\<close>

record loop_state =
  st_produtos :: "(string \<times> produto_acc) list"
  st_estatisticas :: estatisticas_rec

text \<open>
  \<^verbatim>\<open>
  try:
      qt = float(str(qt_str).replace(',', '.')) if qt_str else 0
  except ValueError:
      qt = 0
  \<close>
\<close>

definition parse_qt :: "cell \<Rightarrow> pyfloat" where
  "parse_qt qt_str =
     (if truthy qt_str
      then (case py_float (replace_comma (py_str qt_str)) of Some v \<Rightarrow> v | None \<Rightarrow> 0)
      else 0)"

definition novo_produto :: "col_mapping \<Rightarrow> row \<Rightarrow> string \<Rightarrow> pyfloat \<Rightarrow> produto_acc" where
  "novo_produto cm row cod qt =
     \<lparr>cod_prod = cod,
      nome = row_get row (col_descricao cm) (Some (''Produto '' @ cod)),
      fornecedor = row_get row (col_fornecedor cm) (Some ''Sem fornecedor''),
      cod_fornec = row_get row (col_cod_fornec cm) (Some ''''),
      peso_liqun = row_get row (col_peso cm) (Some ''''),
      vencimentos_por_mes = [],
      quantidade_total = 0,
      menor_dias_restantes = Infinito,
      quantidade_original = qt,
      itens_detalhados = [],
      criticidade = ()\<rparr>"

definition make_item ::
  "col_mapping \<Rightarrow> row \<Rightarrow> pyfloat \<Rightarrow> datetime \<Rightarrow> int \<Rightarrow> item_detalhado" where
  "make_item cm row qt dt_val dias =
     \<lparr>cod_endereco = row_get row (col_cod_endereco cm) (Some ''''),
      deposito = row_get row (col_deposito cm) (Some ''''),
      rua = row_get row (col_rua cm) (Some ''''),
      predio = row_get row (col_predio cm) (Some ''''),
      nivel = row_get row (col_nivel cm) (Some ''''),
      apto = row_get row (col_apto cm) (Some ''''),
      status = row_get row (col_status cm) (Some ''''),
      quantidade = qt,
      data_validade = dt_val,
      dias_restantes = dias,
      fator = row_get row (col_fator cm) (Some ''''),
      unidade = row_get row (col_unidade cm) (Some ''''),
      capacidade = row_get row (col_capacidade cm) (Some ''''),
      qttotpal = row_get row (col_qttotpal cm) (Some ''''),
      pesototal = row_get row (col_pesototal cm) (Some ''''),
      est = row_get row (col_est cm) (Some '''')\<rparr>"

text \<open>
  \<^verbatim>\<open>
  mes_ano = dt_val.strftime('%m/%Y')
  if mes_ano not in produtos[cod_prod]['vencimentos_por_mes']:
      produtos[cod_prod]['vencimentos_por_mes'][mes_ano] = {
          'mes_ano': mes_ano, 'quantidade': 0, 'dias_restantes': dias_restantes}
  produtos[cod_prod]['vencimentos_por_mes'][mes_ano]['quantidade'] += qt
  \<close>
\<close>

definition add_vencimento ::
  "string \<Rightarrow> pyfloat \<Rightarrow> int \<Rightarrow> (string \<times> vencimento) list \<Rightarrow> (string \<times> vencimento) list" where
  "add_vencimento ma qt dias vs =
     (let v = (case map_of vs ma of
                 None \<Rightarrow> \<lparr>mes_ano = ma, mes_quantidade = 0, mes_dias_restantes = dias\<rparr>
               | Some v \<Rightarrow> v)
      in AList.update ma (v\<lparr>mes_quantidade := mes_quantidade v + qt\<rparr>) vs)"

text \<open>
  \<^verbatim>\<open>
  produtos[cod_prod]['itens_detalhados'].append(item_detalhado)
  ...
  produtos[cod_prod]['quantidade_total'] += qt
  if dias_restantes < produtos[cod_prod]['menor_dias_restantes']:
      produtos[cod_prod]['menor_dias_restantes'] = dias_restantes
  \<close>
\<close>

definition add_item :: "item_detalhado \<Rightarrow> produto_acc \<Rightarrow> produto_acc" where
  "add_item item p =
     p\<lparr>itens_detalhados := itens_detalhados p @ [item],
       vencimentos_por_mes :=
         add_vencimento (strftime_mY (data_validade item)) (quantidade item)
           (dias_restantes item) (vencimentos_por_mes p),
       quantidade_total := quantidade_total p + quantidade item,
       menor_dias_restantes :=
         (if lt_menor (dias_restantes item) (menor_dias_restantes p)
          then Dias (dias_restantes item) else menor_dias_restantes p)\<rparr>"

definition ignorar :: "loop_state \<Rightarrow> loop_state" where
  "ignorar st =
     st\<lparr>st_estatisticas :=
          (st_estatisticas st)\<lparr>linhas_ignoradas := linhas_ignoradas (st_estatisticas st) + 1\<rparr>\<rparr>"

definition data_invalida :: "loop_state \<Rightarrow> loop_state" where
  "data_invalida st =
     st\<lparr>st_estatisticas :=
          (st_estatisticas st)\<lparr>datas_invalidas := datas_invalidas (st_estatisticas st) + 1,
                               linhas_ignoradas := linhas_ignoradas (st_estatisticas st) + 1\<rparr>\<rparr>"

text \<open>
  The body of the \<open>try\<close> for one row. \<open>row[None]\<close> would raise \<open>KeyError\<close>; the two
  mandatory columns are checked before the loop. The only call that can raise is
  \<open>parse_date\<close>, before anything is changed.
  \<^verbatim>\<open>
  cod_prod = row[col_mapping['cod_prod']]
  qt_str = row[col_mapping['qt']] if col_mapping['qt'] else '0'
  data_validade = row[col_mapping['dt_val']]
  if pd.isna(cod_prod) or str(cod_prod).strip() == '':
      estatisticas['linhas_ignoradas'] += 1
      continue
  (qt)
  dt_val = self.parse_date(data_validade)
  if not dt_val:
      estatisticas['datas_invalidas'] += 1
      estatisticas['linhas_ignoradas'] += 1
      continue
  dias_restantes = (dt_val - self.hoje).days
  if cod_prod not in produtos:
      produtos[cod_prod] = {...}
  (item, month, totals)
  estatisticas['linhas_processadas'] += 1
  \<close>
\<close>

definition row_body :: "processor \<Rightarrow> col_mapping \<Rightarrow> row \<Rightarrow> loop_state \<Rightarrow> error + loop_state" where
  "row_body self cm row st =
     (case (col_cod_prod cm, col_dt_val cm) of
        (Some ccol, Some dcol) \<Rightarrow>
          let cod = row ccol;
              qt_str = row_get row (col_qt cm) (Some ''0'');
              data_val = row dcol
          in if isna cod \<or> strip (py_str cod) = [] then Inr (ignorar st)
             else
               let qt = parse_qt qt_str
               in (case parse_date data_val of
                     Inl e \<Rightarrow> Inl e
                   | Inr None \<Rightarrow> Inr (data_invalida st)
                   | Inr (Some dt_val) \<Rightarrow>
                       let dias = td_days (datetime_sub dt_val (hoje self));
                           key = py_str cod;
                           prods = (if map_of (st_produtos st) key = None
                                    then st_produtos st @ [(key, novo_produto cm row key qt)]
                                    else st_produtos st);
                           item = make_item cm row qt dt_val dias
                       in Inr (st\<lparr>st_produtos := AList.map_entry key (add_item item) prods,
                                  st_estatisticas :=
                                    (st_estatisticas st)\<lparr>linhas_processadas :=
                                       linhas_processadas (st_estatisticas st) + 1\<rparr>\<rparr>))
      | _ \<Rightarrow> Inl KeyError)"

text \<open>
  \<^verbatim>\<open>
  except Exception as e:
      estatisticas['linhas_ignoradas'] += 1
  \<close>
\<close>

definition process_row :: "processor \<Rightarrow> col_mapping \<Rightarrow> loop_state \<Rightarrow> row \<Rightarrow> loop_state" where
  "process_row self cm st row =
     (case row_body self cm row st of
        Inr st' \<Rightarrow> st'
      | Inl e \<Rightarrow> ignorar st)"

fun process_rows :: "processor \<Rightarrow> col_mapping \<Rightarrow> row list \<Rightarrow> loop_state \<Rightarrow> loop_state" where
  "process_rows self cm [] st = st"
| "process_rows self cm (row # rest) st = process_rows self cm rest (process_row self cm st row)"

subsection \<open>\<open>process_data\<close>: classification, order and result\<close>

text \<open>
  \<^verbatim>\<open>
  if produto['menor_dias_restantes'] < 0:
      criticidade = 'vencido'
      resumo['produtos_vencidos'] += 1
  elif produto['menor_dias_restantes'] <= 30:
      criticidade = 'alta'
      resumo['produtos_vencendo_30_dias'] += 1
  elif produto['menor_dias_restantes'] <= 60:
      criticidade = 'media'
      resumo['produtos_vencendo_60_dias'] += 1
  else:
      criticidade = 'baixa'
  \<close>
\<close>

definition classificar :: "menor \<Rightarrow> resumo_rec \<Rightarrow> criticidade \<times> resumo_rec" where
  "classificar m r =
     (if menor_lt m 0 then (Vencido, r\<lparr>produtos_vencidos := produtos_vencidos r + 1\<rparr>)
      else if menor_le m 30
      then (Alta, r\<lparr>produtos_vencendo_30_dias := produtos_vencendo_30_dias r + 1\<rparr>)
      else if menor_le m 60
      then (Media, r\<lparr>produtos_vencendo_60_dias := produtos_vencendo_60_dias r + 1\<rparr>)
      else (Baixa, r))"

text \<open>
  One pass of the loop over \<open>produtos.values()\<close>: the items and the months are sorted by
  \<open>dias_restantes\<close> (the sort of Python is stable, as \<^const>\<open>sort_key\<close> is), the tier is
  set, \<open>float('inf')\<close> becomes 999 and \<open>total_itens\<close> grows by \<open>abs(quantidade_total)\<close>.
\<close>

definition finalizar_produto :: "produto_acc \<Rightarrow> criticidade \<Rightarrow> produto" where
  "finalizar_produto p c =
     \<lparr>cod_prod = cod_prod p,
      nome = nome p,
      fornecedor = fornecedor p,
      cod_fornec = cod_fornec p,
      peso_liqun = peso_liqun p,
      vencimentos_por_mes = sort_key mes_dias_restantes (map snd (vencimentos_por_mes p)),
      quantidade_total = quantidade_total p,
      menor_dias_restantes = (case menor_dias_restantes p of Infinito \<Rightarrow> 999 | Dias d \<Rightarrow> d),
      quantidade_original = quantidade_original p,
      itens_detalhados = sort_key dias_restantes (itens_detalhados p),
      criticidade = c\<rparr>"

fun finalizar ::
  "produto_acc list \<Rightarrow> produto list \<times> resumo_rec \<Rightarrow> produto list \<times> resumo_rec" where
  "finalizar [] acc = acc"
| "finalizar (p # ps) (produtos_lista, r) =
     (case classificar (menor_dias_restantes p) r of
        (c, r') \<Rightarrow>
          finalizar ps
            (produtos_lista @ [finalizar_produto p c],
             r'\<lparr>total_itens := total_itens r' + fabs (quantidade_total p)\<rparr>))"

text \<open>
  \<^verbatim>\<open>
  produtos_lista.sort(key=lambda x: (
      0 if x['menor_dias_restantes'] < 0 else
      1 if x['menor_dias_restantes'] <= 30 else
      2 if x['menor_dias_restantes'] <= 60 else 3,
      x['menor_dias_restantes']))
  \<close>
  Tuples are compared lexicographically.
\<close>

definition chave :: "produto \<Rightarrow> int \<times> int" where
  "chave x =
     (if menor_dias_restantes x < 0 then 0
      else if menor_dias_restantes x \<le> 30 then 1
      else if menor_dias_restantes x \<le> 60 then 2 else 3,
      menor_dias_restantes x)"

definition resumo_inicial :: resumo_rec where
  "resumo_inicial =
     \<lparr>total_produtos = 0, total_itens = 0, produtos_vencendo_30_dias = 0,
      produtos_vencendo_60_dias = 0, produtos_vencidos = 0\<rparr>"

definition estado_inicial :: "dataframe \<Rightarrow> loop_state" where
  "estado_inicial df =
     \<lparr>st_produtos = [],
      st_estatisticas =
        \<lparr>total_linhas = length (rows df), linhas_processadas = 0, linhas_ignoradas = 0,
         datas_invalidas = 0\<rparr>\<rparr>"

text \<open>
  The two messages are \<open>Coluna DTVAL nao encontrada no arquivo\<close> and the same for
  \<open>CODPROD\<close>; the character of number 227 is the a with a tilde. The entries of the result
  are computed in the order of the dictionary, so an error of \<open>_extrair_filtros\<close> leaves
  \<open>process_data\<close>.
\<close>

definition process_data :: "processor \<Rightarrow> dataframe \<Rightarrow> error + analysis" where
  "process_data self df =
     (let cm = find_columns (columns df)
      in if \<not> col_truthy (col_dt_val cm)
         then Inl (ValueError (''Coluna DTVAL n'' @ [char_of (227 :: nat)] @ ''o encontrada no arquivo''))
         else if \<not> col_truthy (col_cod_prod cm)
         then Inl (ValueError (''Coluna CODPROD n'' @ [char_of (227 :: nat)] @ ''o encontrada no arquivo''))
         else
           let st = process_rows self cm (rows df) (estado_inicial df)
           in (case finalizar (map snd (st_produtos st)) ([], resumo_inicial) of
                 (produtos_lista, r) \<Rightarrow>
                   let ordenados = sort_key chave produtos_lista
                   in (case extrair_filtros ordenados of
                         Inl e \<Rightarrow> Inl e
                       | Inr fs \<Rightarrow>
                           Inr \<lparr>resumo = r\<lparr>total_produtos := length produtos_lista\<rparr>,
                                produtos_criticos = ordenados,
                                filtros = fs,
                                recomendacoes = gerar_recomendacoes ordenados,
                                estatisticas = st_estatisticas st,
                                colunas_mapeadas = cm\<rparr>)))"

subsection \<open>The reading of the specification\<close>

text \<open>
  The tier as the specification words it, on the final integer \<open>minimum days-remaining\<close>:
  below 0 is expired, otherwise up to 30 is high, otherwise up to 60 is medium, otherwise
  low; and the rank of a tier in the order of the report.
\<close>

definition tier_spec :: "int \<Rightarrow> criticidade" where
  "tier_spec d = (if d < 0 then Vencido else if d \<le> 30 then Alta else if d \<le> 60 then Media else Baixa)"

fun tier_rank :: "criticidade \<Rightarrow> int" where
  "tier_rank Vencido = 0"
| "tier_rank Alta = 1"
| "tier_rank Media = 2"
| "tier_rank Baixa = 3"

text \<open>The same rule on the value kept during the loop, where \<open>float('inf')\<close> is possible.\<close>

definition tier_acc :: "menor \<Rightarrow> criticidade" where
  "tier_acc m =
     (if menor_lt m 0 then Vencido else if menor_le m 30 then Alta
      else if menor_le m 60 then Media else Baixa)"

subsection \<open>Example inputs\<close>

text \<open>
  A run on the first of January 2024, and frames with a product code, an expiration date,
  a quantity and a supplier in each row.
\<close>

definition exemplo_self :: processor where
  "exemplo_self = \<lparr>hoje = \<lparr>year = 2024, month = 1, day = 1, micros = 0\<rparr>\<rparr>"

definition exemplo_row :: "cell \<Rightarrow> cell \<Rightarrow> cell \<Rightarrow> cell \<Rightarrow> row" where
  "exemplo_row c d q f =
     (\<lambda>k. if k = ''CODPROD'' then c else if k = ''DTVAL'' then d
          else if k = ''QT'' then q else if k = ''FORNECEDOR'' then f else None)"

definition exemplo_df :: "row list \<Rightarrow> dataframe" where
  "exemplo_df rs = \<lparr>columns = [''CODPROD'', ''DTVAL'', ''QT'', ''FORNECEDOR''], rows = rs\<rparr>"

text \<open>Six products whose only item expires 61, 60, 31, 30, 0 and -1 days from the run.\<close>

definition exemplo_limites :: dataframe where
  "exemplo_limites =
     exemplo_df
       [exemplo_row (Some ''P61'') (Some ''02/03/2024'') (Some ''1'') (Some ''F''),
        exemplo_row (Some ''P60'') (Some ''01/03/2024'') (Some ''1'') (Some ''F''),
        exemplo_row (Some ''P31'') (Some ''01/02/2024'') (Some ''1'') (Some ''F''),
        exemplo_row (Some ''P30'') (Some ''31/01/2024'') (Some ''1'') (Some ''F''),
        exemplo_row (Some ''P0'') (Some ''01/01/2024'') (Some ''1'') (Some ''F''),
        exemplo_row (Some ''PM1'') (Some ''31/12/2023'') (Some ''1'') (Some ''F'')]"

text \<open>
  A frame with a row that is processed, a row without product code, a row with an
  unreadable date and a row on whose date \<open>parse_date\<close> raises.
\<close>

definition exemplo_misto :: dataframe where
  "exemplo_misto =
     exemplo_df
       [exemplo_row (Some ''A'') (Some ''15/01/2024'') (Some ''10'') (Some ''F''),
        exemplo_row (Some '' '') (Some ''15/01/2024'') (Some ''10'') (Some ''F''),
        exemplo_row (Some ''B'') (Some ''amanha'') (Some ''10'') (Some ''F''),
        exemplo_row (Some ''C'') (Some ''2024-01-99999999999'') (Some ''10'') (Some ''F'')]"

text \<open>A finished product with a given minimum days-remaining, tier and total quantity.\<close>

definition exemplo_produto :: "int \<Rightarrow> criticidade \<Rightarrow> pyfloat \<Rightarrow> produto" where
  "exemplo_produto d c q =
     \<lparr>cod_prod = ''A'', nome = Some ''Produto A'', fornecedor = Some ''F'',
      cod_fornec = Some '''', peso_liqun = Some '''', vencimentos_por_mes = [],
      quantidade_total = q, menor_dias_restantes = d, quantidade_original = q,
      itens_detalhados = [], criticidade = c\<rparr>"

text \<open>
  ``None of the other four rules fired'', in the words of the specification: no expired
  product, no high-tier product, no medium-tier product, and no product with a total
  quantity above 100 and a tier other than low.
\<close>

definition no_rule_fired :: "produto list \<Rightarrow> bool" where
  "no_rule_fired ps =
     ((\<forall>p \<in> set ps. criticidade p \<noteq> Vencido)
      \<and> (\<forall>p \<in> set ps. criticidade p \<noteq> Alta)
      \<and> (\<forall>p \<in> set ps. criticidade p \<noteq> Media)
      \<and> (\<forall>p \<in> set ps. \<not> (fless (Finite 100) (quantidade_total p) \<and> criticidade p \<noteq> Baixa)))"

subsection \<open>Invariant of the accumulation\<close>





text \<open>
  Two products, the first without supplier name (an empty cell of the file), and the
  first of them alone.
\<close>

definition exemplo_sem_fornecedor :: dataframe where
  "exemplo_sem_fornecedor =
     exemplo_df
       [exemplo_row (Some ''A'') (Some ''15/01/2024'') (Some ''1'') None,
        exemplo_row (Some ''B'') (Some ''15/01/2024'') (Some ''1'') (Some ''ACME'')]"

definition exemplo_so_nan :: dataframe where
  "exemplo_so_nan =
     exemplo_df [exemplo_row (Some ''A'') (Some ''15/01/2024'') (Some ''1'') None]"









subsection \<open>The reading of the specification: the texts of a date\<close>





section \<open>Properties\<close>

subsection \<open>Properties of the column resolver\<close>

lemma name_in_col_iff: "name_in_col names col \<longleftrightarrow> (\<exists>n \<in> set names. sublist n col)"
  by (induction names) auto

lemma exact_pass_None: "exact_pass cols names = None \<longleftrightarrow> (\<forall>c \<in> set cols. c \<notin> set names)"
  by (induction cols) auto

lemma exact_pass_find: "exact_pass cols names = List.find (\<lambda>c. c \<in> set names) cols"
  by (induction cols) auto

lemma substring_pass_find:
  "substring_pass cols names = List.find (\<lambda>c. \<exists>n \<in> set names. sublist n c) cols"
  by (induction cols) (auto simp: name_in_col_iff)

lemma substring_pass_None:
  "substring_pass cols names = None \<longleftrightarrow> (\<forall>c \<in> set cols. \<forall>n \<in> set names. \<not> sublist n c)"
  by (induction cols) (auto simp: name_in_col_iff)

text \<open>
  Claim C3. The resolver returns the first header, in the original order of the headers,
  that is equal to one of the candidates; when no header is equal to a candidate it returns
  the first header that contains a candidate as a substring; when no header contains a
  candidate it returns nothing. An exact match anywhere therefore wins over a substring
  match at an earlier header.
\<close>

theorem find_column_first_match:
  "((\<exists>c \<in> set cols. c \<in> set names) \<longrightarrow>
      (\<exists>i < length cols. find_column cols names = Some (cols ! i) \<and> cols ! i \<in> set names
         \<and> (\<forall>j < i. cols ! j \<notin> set names)))
   \<and> ((\<forall>c \<in> set cols. c \<notin> set names) \<and> (\<exists>c \<in> set cols. \<exists>n \<in> set names. sublist n c) \<longrightarrow>
      (\<exists>i < length cols. find_column cols names = Some (cols ! i)
         \<and> (\<exists>n \<in> set names. sublist n (cols ! i))
         \<and> (\<forall>j < i. \<forall>n \<in> set names. \<not> sublist n (cols ! j))))
   \<and> ((\<forall>c \<in> set cols. c \<notin> set names) \<and> (\<forall>c \<in> set cols. \<forall>n \<in> set names. \<not> sublist n c) \<longrightarrow>
      find_column cols names = None)"
proof (intro conjI impI)
  assume "\<exists>c \<in> set cols. c \<in> set names"
  then obtain c where c: "exact_pass cols names = Some c"
    using exact_pass_None[of cols names] by (cases "exact_pass cols names") auto
  then obtain i where i: "i < length cols" "cols ! i \<in> set names" "c = cols ! i"
    "\<forall>j < i. cols ! j \<notin> set names"
    unfolding exact_pass_find find_Some_iff by blast
  have "find_column cols names = Some (cols ! i)"
    using c i(3) by (simp add: find_column_def)
  then show "\<exists>i < length cols. find_column cols names = Some (cols ! i) \<and> cols ! i \<in> set names
         \<and> (\<forall>j < i. cols ! j \<notin> set names)"
    using i by blast
next
  assume a: "(\<forall>c \<in> set cols. c \<notin> set names) \<and> (\<exists>c \<in> set cols. \<exists>n \<in> set names. sublist n c)"
  then have e: "exact_pass cols names = None"
    by (simp add: exact_pass_None)
  from a obtain c where c: "substring_pass cols names = Some c"
    using substring_pass_None[of cols names] by (cases "substring_pass cols names") auto
  then obtain i where i: "i < length cols" "\<exists>n \<in> set names. sublist n (cols ! i)" "c = cols ! i"
    "\<forall>j < i. \<not> (\<exists>n \<in> set names. sublist n (cols ! j))"
    unfolding substring_pass_find find_Some_iff by blast
  have "find_column cols names = Some (cols ! i)"
    using c e i(3) by (simp add: find_column_def)
  then show "\<exists>i < length cols. find_column cols names = Some (cols ! i)
         \<and> (\<exists>n \<in> set names. sublist n (cols ! i))
         \<and> (\<forall>j < i. \<forall>n \<in> set names. \<not> sublist n (cols ! j))"
    using i by blast
next
  assume a: "(\<forall>c \<in> set cols. c \<notin> set names) \<and> (\<forall>c \<in> set cols. \<forall>n \<in> set names. \<not> sublist n c)"
  have "exact_pass cols names = None"
    using a by (simp add: exact_pass_None)
  moreover have "substring_pass cols names = None"
    using a by (simp add: substring_pass_None)
  ultimately show "find_column cols names = None"
    by (simp add: find_column_def)
qed

theorem find_column_first_match_witness:
  "find_column [''QTD_TOTAL'', ''QT''] [''QT'', ''QUANTIDADE'', ''QUANTITY'', ''QTD''] = Some ''QT''
   \<and> find_column [''CODPROD'', ''QTD_TOTAL''] [''QT'', ''QUANTIDADE'', ''QUANTITY'', ''QTD'']
       = Some ''QTD_TOTAL''
   \<and> find_column [''CODPROD'', ''DTVAL''] [''QT'', ''QUANTIDADE'', ''QUANTITY'', ''QTD''] = None"
proof (intro conjI)
  let ?N = "[''QT'', ''QUANTIDADE'', ''QUANTITY'', ''QTD'']"
  let ?C1 = "[''QTD_TOTAL'', ''QT'']"
  have "\<exists>c \<in> set ?C1. c \<in> set ?N" by simp
  then have "\<exists>i < length ?C1. find_column ?C1 ?N = Some (?C1 ! i) \<and> ?C1 ! i \<in> set ?N
         \<and> (\<forall>j < i. ?C1 ! j \<notin> set ?N)"
    using find_column_first_match[of ?C1 ?N] by blast
  then show "find_column ?C1 ?N = Some ''QT''"
    by (auto simp: less_Suc_eq)
next
  let ?N = "[''QT'', ''QUANTIDADE'', ''QUANTITY'', ''QTD'']"
  let ?C2 = "[''CODPROD'', ''QTD_TOTAL'']"
  have s: "sublist ''QTD'' ''QTD_TOTAL''" by code_simp
  have n: "\<forall>n \<in> set ?N. \<not> sublist n ''CODPROD''" by code_simp
  have "(\<forall>c \<in> set ?C2. c \<notin> set ?N) \<and> (\<exists>c \<in> set ?C2. \<exists>n \<in> set ?N. sublist n c)"
    using s by simp
  then have "\<exists>i < length ?C2. find_column ?C2 ?N = Some (?C2 ! i)
         \<and> (\<exists>n \<in> set ?N. sublist n (?C2 ! i))
         \<and> (\<forall>j < i. \<forall>n \<in> set ?N. \<not> sublist n (?C2 ! j))"
    using find_column_first_match[of ?C2 ?N] by blast
  then obtain i where i: "i < length ?C2" "find_column ?C2 ?N = Some (?C2 ! i)"
    "\<exists>n \<in> set ?N. sublist n (?C2 ! i)"
    by blast
  have "i \<noteq> 0" using i(3) n by (cases "i = 0") auto
  then have "i = 1" using i(1) by simp
  then show "find_column ?C2 ?N = Some ''QTD_TOTAL''"
    using i(2) by simp
next
  let ?N = "[''QT'', ''QUANTIDADE'', ''QUANTITY'', ''QTD'']"
  let ?C3 = "[''CODPROD'', ''DTVAL'']"
  have "\<forall>c \<in> set ?C3. \<forall>n \<in> set ?N. \<not> sublist n c" by code_simp
  moreover have "\<forall>c \<in> set ?C3. c \<notin> set ?N" by simp
  ultimately show "find_column ?C3 ?N = None"
    using find_column_first_match[of ?C3 ?N] by blast
qed

subsection \<open>Recommendations, tiers, order and statistics\<close>

lemma gerar_control_iff:
  "SobControle \<in> set (gerar_recomendacoes ps) \<longleftrightarrow>
     \<not> (\<exists>p \<in> set ps. menor_dias_restantes p < 0)
     \<and> \<not> (\<exists>p \<in> set ps. criticidade p = Alta)
     \<and> \<not> (\<exists>p \<in> set ps. criticidade p = Media)
     \<and> \<not> (\<exists>p \<in> set ps. fless (Finite 100) (quantidade_total p) \<and> criticidade p \<noteq> Baixa)"
  by (auto simp: gerar_recomendacoes_def Let_def filter_empty_conv)

lemma gerar_control_only:
  "\<not> (\<exists>p \<in> set ps. menor_dias_restantes p < 0) \<Longrightarrow>
   \<not> (\<exists>p \<in> set ps. criticidade p = Alta) \<Longrightarrow>
   \<not> (\<exists>p \<in> set ps. criticidade p = Media) \<Longrightarrow>
   \<not> (\<exists>p \<in> set ps. fless (Finite 100) (quantidade_total p) \<and> criticidade p \<noteq> Baixa) \<Longrightarrow>
   gerar_recomendacoes ps = [SobControle]"
  by (auto simp: gerar_recomendacoes_def Let_def filter_empty_conv)

lemma fst_classificar: "fst (classificar m r) = tier_acc m"
  by (simp add: classificar_def tier_acc_def)

lemma finalizar_lista:
  "fst (finalizar ps (l, r)) = l @ map (\<lambda>p. finalizar_produto p (tier_acc (menor_dias_restantes p))) ps"
proof (induction ps arbitrary: l r)
  case Nil show ?case by simp
next
  case (Cons p ps)
  obtain c r' where cr: "classificar (menor_dias_restantes p) r = (c, r')"
    by (cases "classificar (menor_dias_restantes p) r")
  then have "c = tier_acc (menor_dias_restantes p)"
    using fst_classificar[of "menor_dias_restantes p" r] by simp
  then show ?case using Cons.IH cr by simp
qed

lemma finalizar_counts:
  "produtos_vencidos (snd (finalizar ps (l, r))) = produtos_vencidos r + length (filter (\<lambda>p. tier_acc (menor_dias_restantes p) = Vencido) ps)
   \<and> produtos_vencendo_30_dias (snd (finalizar ps (l, r))) = produtos_vencendo_30_dias r + length (filter (\<lambda>p. tier_acc (menor_dias_restantes p) = Alta) ps)
   \<and> produtos_vencendo_60_dias (snd (finalizar ps (l, r))) = produtos_vencendo_60_dias r + length (filter (\<lambda>p. tier_acc (menor_dias_restantes p) = Media) ps)"
proof (induction ps arbitrary: l r)
  case Nil show ?case by simp
next
  case (Cons p ps)
  show ?case
    by (simp add: Cons.IH classificar_def tier_acc_def split: prod.splits)
qed

lemma tier_final:
  "tier_spec (menor_dias_restantes (finalizar_produto p c)) = tier_acc (menor_dias_restantes p)"
  by (cases "menor_dias_restantes p") (simp_all add: finalizar_produto_def tier_spec_def tier_acc_def)

lemma crit_final: "criticidade (finalizar_produto p c) = c"
  by (simp add: finalizar_produto_def)


lemma process_data_Inr:
  assumes "process_data self df = Inr res"
  shows "\<exists>lista r.
           finalizar (map snd (st_produtos (process_rows self (find_columns (columns df)) (rows df)
                                 (estado_inicial df)))) ([], resumo_inicial) = (lista, r)
           \<and> produtos_criticos res = sort_key chave lista
           \<and> resumo res = r\<lparr>total_produtos := length lista\<rparr>
           \<and> estatisticas res = st_estatisticas (process_rows self (find_columns (columns df))
                                   (rows df) (estado_inicial df))
           \<and> recomendacoes res = gerar_recomendacoes (sort_key chave lista)
           \<and> extrair_filtros (sort_key chave lista) = Inr (filtros res)
           \<and> colunas_mapeadas res = find_columns (columns df)
           \<and> col_truthy (col_dt_val (find_columns (columns df)))
           \<and> col_truthy (col_cod_prod (find_columns (columns df)))"
  using assms
  by (auto simp: process_data_def Let_def split: if_splits prod.splits sum.splits)

lemma finalizar_split:
  "finalizar ps (l, r) = (lista, r') \<Longrightarrow>
     lista = l @ map (\<lambda>p. finalizar_produto p (tier_acc (menor_dias_restantes p))) ps"
  using finalizar_lista[of ps l r] by simp

lemma process_data_produtos:
  assumes "process_data self df = Inr res"
  shows "produtos_criticos res =
           sort_key chave
             (map (\<lambda>p. finalizar_produto p (tier_acc (menor_dias_restantes p)))
                (map snd (st_produtos (process_rows self (find_columns (columns df)) (rows df)
                                         (estado_inicial df)))))"
proof -
  from process_data_Inr[OF assms] obtain lista r where
    f: "finalizar (map snd (st_produtos (process_rows self (find_columns (columns df)) (rows df)
                                 (estado_inicial df)))) ([], resumo_inicial) = (lista, r)"
    and p: "produtos_criticos res = sort_key chave lista"
    by blast
  from finalizar_split[OF f] p show ?thesis by simp
qed

lemma process_data_classified:
  assumes "process_data self df = Inr res" and "p \<in> set (produtos_criticos res)"
  shows "criticidade p = tier_spec (menor_dias_restantes p)"
proof -
  from assms(2) obtain a where "p = finalizar_produto a (tier_acc (menor_dias_restantes a))"
    unfolding process_data_produtos[OF assms(1)] by auto
  then show ?thesis by (simp add: tier_final crit_final)
qed

lemma length_filter_sort_key: "length (filter P (sort_key f xs)) = length (filter P xs)"
proof -
  have "mset (filter P (sort_key f xs)) = mset (filter P xs)" by simp
  then show ?thesis by (metis size_mset)
qed

lemma process_data_counters:
  assumes "process_data self df = Inr res"
  shows "produtos_vencidos (resumo res) = length (filter (\<lambda>p. criticidade p = Vencido) (produtos_criticos res))"
    and "produtos_vencendo_30_dias (resumo res) = length (filter (\<lambda>p. criticidade p = Alta) (produtos_criticos res))"
    and "produtos_vencendo_60_dias (resumo res) = length (filter (\<lambda>p. criticidade p = Media) (produtos_criticos res))"
proof -
  let ?accs = "map snd (st_produtos (process_rows self (find_columns (columns df)) (rows df)
                                 (estado_inicial df)))"
  let ?fp = "\<lambda>p. finalizar_produto p (tier_acc (menor_dias_restantes p))"
  from process_data_Inr[OF assms] obtain lista r where
    f: "finalizar ?accs ([], resumo_inicial) = (lista, r)"
    and p: "produtos_criticos res = sort_key chave lista"
    and rs: "resumo res = r\<lparr>total_produtos := length lista\<rparr>"
    by blast
  have l: "lista = map ?fp ?accs" using finalizar_split[OF f] by simp
  have r: "r = snd (finalizar ?accs ([], resumo_inicial))" using f by simp
  have c: "\<And>t. length (filter (\<lambda>p. criticidade p = t) (produtos_criticos res))
              = length (filter (\<lambda>a. tier_acc (menor_dias_restantes a) = t) ?accs)"
    unfolding p l length_filter_sort_key
    by (simp add: filter_map comp_def crit_final)
  show "produtos_vencidos (resumo res) = length (filter (\<lambda>p. criticidade p = Vencido) (produtos_criticos res))"
    unfolding c rs r using finalizar_counts[of ?accs "[]" resumo_inicial]
    by (simp add: resumo_inicial_def)
  show "produtos_vencendo_30_dias (resumo res) = length (filter (\<lambda>p. criticidade p = Alta) (produtos_criticos res))"
    unfolding c rs r using finalizar_counts[of ?accs "[]" resumo_inicial]
    by (simp add: resumo_inicial_def)
  show "produtos_vencendo_60_dias (resumo res) = length (filter (\<lambda>p. criticidade p = Media) (produtos_criticos res))"
    unfolding c rs r using finalizar_counts[of ?accs "[]" resumo_inicial]
    by (simp add: resumo_inicial_def)
qed

text \<open>
  Claim C1. In every returned analysis the tier of each product is the function
  \<^const>\<open>tier_spec\<close> of its minimum days-remaining (below 0 expired, otherwise up to 30 high,
  otherwise up to 60 medium, otherwise low), and the counters of expired products, of
  products due in 30 days and of products due in 60 days are the numbers of products of the
  tiers expired, high and medium.
\<close>

theorem criticidade_by_boundaries:
  "process_data self df = Inr res \<Longrightarrow>
     (\<forall>p \<in> set (produtos_criticos res). criticidade p = tier_spec (menor_dias_restantes p))
     \<and> produtos_vencidos (resumo res)
         = length (filter (\<lambda>p. criticidade p = Vencido) (produtos_criticos res))
     \<and> produtos_vencendo_30_dias (resumo res)
         = length (filter (\<lambda>p. criticidade p = Alta) (produtos_criticos res))
     \<and> produtos_vencendo_60_dias (resumo res)
         = length (filter (\<lambda>p. criticidade p = Media) (produtos_criticos res))"
  using process_data_classified process_data_counters by blast

lemma chave_rank:
  "criticidade p = tier_spec (menor_dias_restantes p) \<Longrightarrow>
     chave p = (tier_rank (criticidade p), menor_dias_restantes p)"
  by (simp add: chave_def tier_spec_def)

text \<open>
  Claim C7. The products of every returned analysis are in ascending order of the pair of
  tier rank (expired 0, high 1, medium 2, low 3) and minimum days-remaining: of two
  adjacent products the first has the lower or equal rank and, when the ranks are equal,
  the lower or equal minimum days-remaining.
\<close>

theorem produtos_sorted_by_tier:
  assumes "process_data self df = Inr res" and "Suc i < length (produtos_criticos res)"
  shows "tier_rank (criticidade (produtos_criticos res ! i))
           \<le> tier_rank (criticidade (produtos_criticos res ! Suc i))
         \<and> (tier_rank (criticidade (produtos_criticos res ! i))
               = tier_rank (criticidade (produtos_criticos res ! Suc i)) \<longrightarrow>
             menor_dias_restantes (produtos_criticos res ! i)
               \<le> menor_dias_restantes (produtos_criticos res ! Suc i))"
proof -
  let ?ps = "produtos_criticos res"
  from process_data_Inr[OF assms(1)] obtain lista where p: "?ps = sort_key chave lista"
    by blast
  have "sorted (map chave ?ps)" unfolding p by (rule sorted_sort_key)
  then have "map chave ?ps ! i \<le> map chave ?ps ! Suc i"
    using assms(2) by (simp add: sorted_iff_nth_Suc)
  then have le: "chave (?ps ! i) \<le> chave (?ps ! Suc i)"
    using assms(2) by simp
  have "?ps ! i \<in> set ?ps" "?ps ! Suc i \<in> set ?ps"
    using assms(2) by simp_all
  then have "chave (?ps ! i) = (tier_rank (criticidade (?ps ! i)), menor_dias_restantes (?ps ! i))"
    "chave (?ps ! Suc i) = (tier_rank (criticidade (?ps ! Suc i)), menor_dias_restantes (?ps ! Suc i))"
    using process_data_classified[OF assms(1)] chave_rank by blast+
  with le show ?thesis by (auto simp: less_eq_prod_def)
qed

lemma process_row_stats:
  "total_linhas (st_estatisticas (process_row self cm st row)) = total_linhas (st_estatisticas st)
   \<and> linhas_processadas (st_estatisticas (process_row self cm st row))
       + linhas_ignoradas (st_estatisticas (process_row self cm st row))
     = linhas_processadas (st_estatisticas st) + linhas_ignoradas (st_estatisticas st) + 1
   \<and> (datas_invalidas (st_estatisticas st) \<le> linhas_ignoradas (st_estatisticas st) \<longrightarrow>
        datas_invalidas (st_estatisticas (process_row self cm st row))
          \<le> linhas_ignoradas (st_estatisticas (process_row self cm st row)))"
  by (auto simp: process_row_def row_body_def ignorar_def data_invalida_def Let_def
           split: option.splits sum.splits)

lemma process_rows_stats:
  "total_linhas (st_estatisticas (process_rows self cm rs st)) = total_linhas (st_estatisticas st)
   \<and> linhas_processadas (st_estatisticas (process_rows self cm rs st))
       + linhas_ignoradas (st_estatisticas (process_rows self cm rs st))
     = linhas_processadas (st_estatisticas st) + linhas_ignoradas (st_estatisticas st) + length rs
   \<and> (datas_invalidas (st_estatisticas st) \<le> linhas_ignoradas (st_estatisticas st) \<longrightarrow>
        datas_invalidas (st_estatisticas (process_rows self cm rs st))
          \<le> linhas_ignoradas (st_estatisticas (process_rows self cm rs st)))"
proof (induction rs arbitrary: st)
  case Nil show ?case by simp
next
  case (Cons r rs)
  show ?case using Cons.IH[of "process_row self cm st r"] process_row_stats[of self cm st r]
    by simp
qed

text \<open>
  Claim C10. In every returned analysis \<open>total_linhas\<close> is the number of rows of the frame
  and equals \<open>linhas_processadas\<close> plus \<open>linhas_ignoradas\<close>, and \<open>datas_invalidas\<close> is at
  most \<open>linhas_ignoradas\<close>.
\<close>

theorem statistics_conserved:
  "process_data self df = Inr res \<Longrightarrow>
     total_linhas (estatisticas res) = length (rows df)
     \<and> total_linhas (estatisticas res)
         = linhas_processadas (estatisticas res) + linhas_ignoradas (estatisticas res)
     \<and> datas_invalidas (estatisticas res) \<le> linhas_ignoradas (estatisticas res)"
proof -
  assume a: "process_data self df = Inr res"
  from process_data_Inr[OF a] have e: "estatisticas res
      = st_estatisticas (process_rows self (find_columns (columns df)) (rows df) (estado_inicial df))"
    by blast
  show ?thesis unfolding e
    using process_rows_stats[of self "find_columns (columns df)" "rows df" "estado_inicial df"]
    by (simp add: estado_inicial_def)
qed

lemma exemplo_limites_run:
  "\<exists>res. process_data exemplo_self exemplo_limites = Inr res
     \<and> map (\<lambda>p. (menor_dias_restantes p, criticidade p)) (produtos_criticos res)
         = [(- 1, Vencido), (0, Alta), (30, Alta), (31, Media), (60, Media), (61, Baixa)]"
proof -
  have "case process_data exemplo_self exemplo_limites of
          Inl e \<Rightarrow> False
        | Inr res \<Rightarrow>
            map (\<lambda>p. (menor_dias_restantes p, criticidade p)) (produtos_criticos res)
              = [(- 1, Vencido), (0, Alta), (30, Alta), (31, Media), (60, Media), (61, Baixa)]"
    by code_simp
  then show ?thesis
    by (cases "process_data exemplo_self exemplo_limites") simp_all
qed

theorem criticidade_by_boundaries_witness:
  "\<exists>res. process_data exemplo_self exemplo_limites = Inr res
     \<and> map (\<lambda>p. (menor_dias_restantes p, criticidade p)) (produtos_criticos res)
         = [(- 1, Vencido), (0, Alta), (30, Alta), (31, Media), (60, Media), (61, Baixa)]
     \<and> (\<forall>p \<in> set (produtos_criticos res). criticidade p = tier_spec (menor_dias_restantes p))
     \<and> produtos_vencidos (resumo res)
         = length (filter (\<lambda>p. criticidade p = Vencido) (produtos_criticos res))
     \<and> produtos_vencendo_30_dias (resumo res)
         = length (filter (\<lambda>p. criticidade p = Alta) (produtos_criticos res))
     \<and> produtos_vencendo_60_dias (resumo res)
         = length (filter (\<lambda>p. criticidade p = Media) (produtos_criticos res))"
proof -
  from exemplo_limites_run obtain res where
    r: "process_data exemplo_self exemplo_limites = Inr res"
    and m: "map (\<lambda>p. (menor_dias_restantes p, criticidade p)) (produtos_criticos res)
         = [(- 1, Vencido), (0, Alta), (30, Alta), (31, Media), (60, Media), (61, Baixa)]"
    by (elim exE conjE)
  note c = criticidade_by_boundaries[OF r]
  note c1 = c[THEN conjunct1]
  note c2 = c[THEN conjunct2, THEN conjunct1]
  note c3 = c[THEN conjunct2, THEN conjunct2, THEN conjunct1]
  note c4 = c[THEN conjunct2, THEN conjunct2, THEN conjunct2]
  show ?thesis by (rule exI[of _ res], intro conjI) (fact r m c1 c2 c3 c4)+
qed

theorem produtos_sorted_by_tier_witness:
  "\<exists>res. process_data exemplo_self exemplo_limites = Inr res
     \<and> Suc 1 < length (produtos_criticos res)
     \<and> tier_rank (criticidade (produtos_criticos res ! 1))
           \<le> tier_rank (criticidade (produtos_criticos res ! Suc 1))
     \<and> (tier_rank (criticidade (produtos_criticos res ! 1))
               = tier_rank (criticidade (produtos_criticos res ! Suc 1)) \<longrightarrow>
             menor_dias_restantes (produtos_criticos res ! 1)
               \<le> menor_dias_restantes (produtos_criticos res ! Suc 1))"
proof -
  from exemplo_limites_run obtain res where
    r: "process_data exemplo_self exemplo_limites = Inr res"
    and m: "map (\<lambda>p. (menor_dias_restantes p, criticidade p)) (produtos_criticos res)
         = [(- 1, Vencido), (0, Alta), (30, Alta), (31, Media), (60, Media), (61, Baixa)]"
    by (elim exE conjE)
  have "length (map (\<lambda>p. (menor_dias_restantes p, criticidade p)) (produtos_criticos res)) = 6"
    unfolding m by simp
  then have l: "Suc 1 < length (produtos_criticos res)" by simp
  note c = produtos_sorted_by_tier[OF r l]
  show ?thesis by (rule exI[of _ res]) (use r l c in simp)
qed

lemma exemplo_misto_run:
  "\<exists>res. process_data exemplo_self exemplo_misto = Inr res
     \<and> estatisticas res = \<lparr>total_linhas = 4, linhas_processadas = 1, linhas_ignoradas = 3,
                            datas_invalidas = 1\<rparr>"
proof -
  have "case process_data exemplo_self exemplo_misto of
          Inl e \<Rightarrow> False
        | Inr res \<Rightarrow> estatisticas res = \<lparr>total_linhas = 4, linhas_processadas = 1,
                                         linhas_ignoradas = 3, datas_invalidas = 1\<rparr>"
    by code_simp
  then show ?thesis
    by (cases "process_data exemplo_self exemplo_misto") simp_all
qed

theorem statistics_conserved_witness:
  "\<exists>res. process_data exemplo_self exemplo_misto = Inr res
     \<and> total_linhas (estatisticas res) = length (rows exemplo_misto)
     \<and> total_linhas (estatisticas res)
         = linhas_processadas (estatisticas res) + linhas_ignoradas (estatisticas res)
     \<and> datas_invalidas (estatisticas res) \<le> linhas_ignoradas (estatisticas res)
     \<and> linhas_processadas (estatisticas res) = 1
     \<and> datas_invalidas (estatisticas res) = 1"
proof -
  from exemplo_misto_run obtain res where
    r: "process_data exemplo_self exemplo_misto = Inr res"
    and e: "estatisticas res = \<lparr>total_linhas = 4, linhas_processadas = 1, linhas_ignoradas = 3,
                            datas_invalidas = 1\<rparr>"
    by (elim exE conjE)
  have "linhas_processadas (estatisticas res) = 1" "datas_invalidas (estatisticas res) = 1"
    unfolding e by simp_all
  note v = this
  note c = statistics_conserved[OF r]
  show ?thesis by (rule exI[of _ res]) (use r v c in simp)
qed

lemma none_fired_iff_all_low:
  assumes "\<forall>p \<in> set ps. criticidade p = tier_spec (menor_dias_restantes p)"
  shows "(\<not> (\<exists>p \<in> set ps. menor_dias_restantes p < 0)
          \<and> \<not> (\<exists>p \<in> set ps. criticidade p = Alta)
          \<and> \<not> (\<exists>p \<in> set ps. criticidade p = Media)
          \<and> \<not> (\<exists>p \<in> set ps. fless (Finite 100) (quantidade_total p) \<and> criticidade p \<noteq> Baixa))
         \<longleftrightarrow> (\<forall>p \<in> set ps. criticidade p = Baixa)"
proof
  assume n: "\<not> (\<exists>p \<in> set ps. menor_dias_restantes p < 0)
          \<and> \<not> (\<exists>p \<in> set ps. criticidade p = Alta)
          \<and> \<not> (\<exists>p \<in> set ps. criticidade p = Media)
          \<and> \<not> (\<exists>p \<in> set ps. fless (Finite 100) (quantidade_total p) \<and> criticidade p \<noteq> Baixa)"
  show "\<forall>p \<in> set ps. criticidade p = Baixa"
  proof
    fix p assume p: "p \<in> set ps"
    then have "criticidade p = tier_spec (menor_dias_restantes p)" using assms by blast
    moreover have "\<not> menor_dias_restantes p < 0" "criticidade p \<noteq> Alta" "criticidade p \<noteq> Media"
      using n p by blast+
    ultimately show "criticidade p = Baixa"
      by (simp add: tier_spec_def split: if_splits)
  qed
next
  assume b: "\<forall>p \<in> set ps. criticidade p = Baixa"
  have "\<And>p. p \<in> set ps \<Longrightarrow> \<not> menor_dias_restantes p < 0"
  proof
    fix p assume p: "p \<in> set ps" and "menor_dias_restantes p < 0"
    then have "tier_spec (menor_dias_restantes p) = Vencido" by (simp add: tier_spec_def)
    then show False using assms b p by auto
  qed
  then show "\<not> (\<exists>p \<in> set ps. menor_dias_restantes p < 0)
          \<and> \<not> (\<exists>p \<in> set ps. criticidade p = Alta)
          \<and> \<not> (\<exists>p \<in> set ps. criticidade p = Media)
          \<and> \<not> (\<exists>p \<in> set ps. fless (Finite 100) (quantidade_total p) \<and> criticidade p \<noteq> Baixa)"
    using b by auto
qed

lemma extrair_filtros_Nil:
  "extrair_filtros [] = Inr \<lparr>fornecedores = [], cods_fornecedor = [], pesos_liquidos = [],
                              cods_produto = []\<rparr>"
  by (simp add: extrair_filtros_def sorted_cells_def sorted_texts_def)

lemma process_data_empty:
  assumes "col_truthy (col_dt_val (find_columns (columns df)))"
    and "col_truthy (col_cod_prod (find_columns (columns df)))"
    and "rows df = []"
  shows "\<exists>res. process_data self df = Inr res \<and> total_produtos (resumo res) = 0
           \<and> produtos_criticos res = [] \<and> recomendacoes res = [SobControle]"
  using assms
  by (simp add: process_data_def Let_def extrair_filtros_Nil gerar_recomendacoes_def
        estado_inicial_def resumo_inicial_def)


lemma no_rule_fired_code:
  assumes "\<forall>p \<in> set ps. criticidade p = tier_spec (menor_dias_restantes p)"
  shows "no_rule_fired ps \<longleftrightarrow>
     \<not> (\<exists>p \<in> set ps. menor_dias_restantes p < 0)
     \<and> \<not> (\<exists>p \<in> set ps. criticidade p = Alta)
     \<and> \<not> (\<exists>p \<in> set ps. criticidade p = Media)
     \<and> \<not> (\<exists>p \<in> set ps. fless (Finite 100) (quantidade_total p) \<and> criticidade p \<noteq> Baixa)"
proof -
  have "\<And>p. p \<in> set ps \<Longrightarrow> (criticidade p = Vencido \<longleftrightarrow> menor_dias_restantes p < 0)"
  proof -
    fix p assume "p \<in> set ps"
    then have "criticidade p = tier_spec (menor_dias_restantes p)" using assms by blast
    then show "criticidade p = Vencido \<longleftrightarrow> menor_dias_restantes p < 0"
      by (simp add: tier_spec_def)
  qed
  then show ?thesis unfolding no_rule_fired_def by blast
qed

text \<open>
  Claim C8. For every classified list of products the recommendations contain the
  message ``situation under control'' exactly when none of the four other rules fired, and
  then it is the only message; a frame without rows, whose mandatory columns resolve,
  gives an analysis with no product and that single message.
\<close>

theorem control_message_iff:
  assumes "\<forall>p \<in> set ps. criticidade p = tier_spec (menor_dias_restantes p)"
  shows "(SobControle \<in> set (gerar_recomendacoes ps) \<longleftrightarrow> no_rule_fired ps)
     \<and> (no_rule_fired ps \<longrightarrow> gerar_recomendacoes ps = [SobControle])
     \<and> (col_truthy (col_dt_val (find_columns (columns df)))
          \<and> col_truthy (col_cod_prod (find_columns (columns df))) \<and> rows df = [] \<longrightarrow>
        (\<exists>res. process_data self df = Inr res \<and> total_produtos (resumo res) = 0
           \<and> recomendacoes res = [SobControle]))"
proof (intro conjI impI)
  show "SobControle \<in> set (gerar_recomendacoes ps) \<longleftrightarrow> no_rule_fired ps"
    unfolding no_rule_fired_code[OF assms] by (rule gerar_control_iff)
next
  assume "no_rule_fired ps"
  then show "gerar_recomendacoes ps = [SobControle]"
    unfolding no_rule_fired_code[OF assms] by (intro gerar_control_only) blast+
next
  assume "col_truthy (col_dt_val (find_columns (columns df)))
          \<and> col_truthy (col_cod_prod (find_columns (columns df))) \<and> rows df = []"
  then show "\<exists>res. process_data self df = Inr res \<and> total_produtos (resumo res) = 0
           \<and> recomendacoes res = [SobControle]"
    using process_data_empty[of df self] by blast
qed

theorem control_message_iff_witness:
  "gerar_recomendacoes [exemplo_produto 90 Baixa (Finite 500)] = [SobControle]
   \<and> SobControle \<notin> set (gerar_recomendacoes [exemplo_produto 10 Alta (Finite 500)])
   \<and> (\<exists>res. process_data exemplo_self (exemplo_df []) = Inr res
         \<and> total_produtos (resumo res) = 0 \<and> recomendacoes res = [SobControle])"
proof (intro conjI)
  let ?ps = "[exemplo_produto 90 Baixa (Finite 500)]"
  have c: "\<forall>p \<in> set ?ps. criticidade p = tier_spec (menor_dias_restantes p)"
    by (simp add: exemplo_produto_def tier_spec_def)
  have n: "no_rule_fired ?ps"
    by (simp add: no_rule_fired_def exemplo_produto_def)
  show "gerar_recomendacoes ?ps = [SobControle]"
    using control_message_iff[OF c, of "exemplo_df []" exemplo_self] n by blast
next
  let ?ps = "[exemplo_produto 10 Alta (Finite 500)]"
  have c: "\<forall>p \<in> set ?ps. criticidade p = tier_spec (menor_dias_restantes p)"
    by (simp add: exemplo_produto_def tier_spec_def)
  have n: "\<not> no_rule_fired ?ps"
    by (simp add: no_rule_fired_def exemplo_produto_def)
  show "SobControle \<notin> set (gerar_recomendacoes ?ps)"
    using control_message_iff[OF c, of "exemplo_df []" exemplo_self] n by blast
next
  let ?ps = "[] :: produto list"
  have c: "\<forall>p \<in> set ?ps. criticidade p = tier_spec (menor_dias_restantes p)" by simp
  have d: "col_truthy (col_dt_val (find_columns (columns (exemplo_df []))))" by code_simp
  have k: "col_truthy (col_cod_prod (find_columns (columns (exemplo_df []))))" by code_simp
  have r: "rows (exemplo_df []) = []" by (simp add: exemplo_df_def)
  show "\<exists>res. process_data exemplo_self (exemplo_df []) = Inr res
         \<and> total_produtos (resumo res) = 0 \<and> recomendacoes res = [SobControle]"
    using control_message_iff[OF c, of "exemplo_df []" exemplo_self] d k r by blast
qed

subsection \<open>Accumulation: totals, minimum and quantities\<close>























lemma sort_key_single: "sort_key f [x] = [x]"
  by simp


subsection \<open>Runs of the examples\<close>








subsection \<open>The filters\<close>

text \<open>
  Claim C9, at a failing input. The supplier names are not converted with \<open>str\<close> as the
  three other filters are: with a product whose supplier cell is empty and a product with
  a supplier name, sorting the names raises \<open>TypeError\<close> and \<open>process_data\<close> returns no
  analysis; with the first product alone the list of supplier names is the single NaN,
  which is no text.
\<close>

theorem supplier_names_not_coerced:
  "process_data exemplo_self exemplo_sem_fornecedor = Inl TypeError
   \<and> (case process_data exemplo_self exemplo_so_nan of
         Inl e \<Rightarrow> False
       | Inr res \<Rightarrow> fornecedores (filtros res) = [None] \<and> cods_produto (filtros res) = [''A''])"
  by code_simp

lemma sorted_texts_sorted_distinct:
  "sorted (sorted_texts vs) \<and> distinct (sorted_texts vs) \<and> set (sorted_texts vs) = set vs"
  by (simp add: sorted_texts_def)

lemma extrair_filtros_texts:
  assumes "extrair_filtros ps = Inr fs"
  shows "sorted (cods_fornecedor fs) \<and> distinct (cods_fornecedor fs)
     \<and> sorted (pesos_liquidos fs) \<and> distinct (pesos_liquidos fs)
     \<and> sorted (cods_produto fs) \<and> distinct (cods_produto fs)"
  using assms
  by (auto simp: extrair_filtros_def sorted_texts_sorted_distinct split: sum.splits)

subsection \<open>Configuration errors and the recovery of rows\<close>












text \<open>
  The parser itself raises on a date of the third format whose day does not fit a C
  \<open>int\<close>: \<open>datetime\<close> raises \<open>OverflowError\<close>, which no \<open>except ValueError\<close> catches.
\<close>

lemma parse_date_overflow: "parse_date (Some ''2024-01-99999999999'') = Inl OverflowError"
  by code_simp





subsection \<open>The date parser\<close>

text \<open>Digits, and the texts that \<open>strip\<close>, \<open>int\<close> and \<open>split\<close> leave as they are.\<close>

lemma is_digit_cases:
  "is_digit c \<longleftrightarrow> c = CHR ''0'' \<or> c = CHR ''1'' \<or> c = CHR ''2'' \<or> c = CHR ''3'' \<or> c = CHR ''4''
     \<or> c = CHR ''5'' \<or> c = CHR ''6'' \<or> c = CHR ''7'' \<or> c = CHR ''8'' \<or> c = CHR ''9''"
  by (auto simp add: is_digit_def)

lemma is_digit_not_space: "is_digit c \<Longrightarrow> \<not> is_space c"
  by (auto simp add: is_digit_cases is_space_def)




lemma dropWhile_hd: "s \<noteq> [] \<Longrightarrow> \<not> P (hd s) \<Longrightarrow> dropWhile P s = s"
  by (cases s) simp_all

lemma strip_id: "s \<noteq> [] \<Longrightarrow> \<not> is_space (hd s) \<Longrightarrow> \<not> is_space (last s) \<Longrightarrow> strip s = s"
  by (simp add: strip_def dropWhile_hd hd_rev)










lemma digits_no_char: "list_all is_digit a \<Longrightarrow> \<not> is_digit x \<Longrightarrow> x \<notin> set a"
  by (auto simp add: list_all_iff)












































end
